theory Spec2Isabelle
  imports Complex_Main
begin

section \<open>The radar link-budget model of \<^verbatim>\<open>radar_simconfig.py\<close>\<close>

text \<open>
  The module holds the radar's constants and six helper functions. Its numbers are
  Python floats; they are modelled as reals (exact arithmetic, unbounded range), so
  rounding, overflow and underflow of IEEE doubles are outside this development.
  What Python and numpy do at the edges of the domain is kept:
  \<^item> Python's true division \<^verbatim>\<open>a / b\<close> of floats raises \<^verbatim>\<open>ZeroDivisionError\<close> when
    \<^verbatim>\<open>b\<close> is zero;
  \<^item> \<^verbatim>\<open>np.log10\<close> raises nothing: at zero it returns \<^verbatim>\<open>-inf\<close> and below zero it
    returns \<^verbatim>\<open>nan\<close> (numpy only emits a warning), as a \<^verbatim>\<open>np.float64\<close>.
\<close>

subsection \<open>Errors and values\<close>

text \<open>
  \<open>ZeroDivisionError\<close> is the one exception the module's arithmetic can raise.
  \<open>InvalidInputError\<close> is the error kind of the specification; no statement of the
  source raises it.
\<close>

datatype error = ZeroDivisionError | InvalidInputError

text \<open>A \<^verbatim>\<open>np.float64\<close>: a finite number or one of the IEEE special values.\<close>

datatype float64 = Finite real | PosInf | NegInf | NaN

text \<open>Sequencing of computations that may raise: the first exception wins.\<close>

definition bind_res :: "error + 'a \<Rightarrow> ('a \<Rightarrow> error + 'b) \<Rightarrow> error + 'b" where
  "bind_res m f = (case m of Inl e \<Rightarrow> Inl e | Inr v \<Rightarrow> f v)"

text \<open>Python's \<^verbatim>\<open>a / b\<close> on floats.\<close>

definition py_truediv :: "real \<Rightarrow> real \<Rightarrow> error + real" where
  "py_truediv a b = (if b = 0 then Inl ZeroDivisionError else Inr (a / b))"

text \<open>\<^verbatim>\<open>np.log10(x)\<close> on a finite float.\<close>

definition np_log10 :: "real \<Rightarrow> float64" where
  "np_log10 x = (if 0 < x then Finite (log 10 x) else if x = 0 then NegInf else NaN)"

text \<open>\<^verbatim>\<open>c * v\<close> for a finite Python number \<^verbatim>\<open>c\<close> and a \<^verbatim>\<open>np.float64\<close> \<^verbatim>\<open>v\<close>.\<close>

fun f64_times :: "real \<Rightarrow> float64 \<Rightarrow> float64" where
  "f64_times c (Finite v) = Finite (c * v)"
| "f64_times c PosInf = (if 0 < c then PosInf else if c < 0 then NegInf else NaN)"
| "f64_times c NegInf = (if 0 < c then NegInf else if c < 0 then PosInf else NaN)"
| "f64_times c NaN = NaN"

subsection \<open>Constants\<close>

definition SPEED_OF_LIGHT :: real where
  "SPEED_OF_LIGHT = 3 * 10 ^ 8"


definition PULSE_WIDTH :: real where
  "PULSE_WIDTH = 1 / 10 ^ 6"


definition NOISE_FIGURE_DB :: real where
  "NOISE_FIGURE_DB = 5"

definition SYSTEM_TEMPERATURE :: real where
  "SYSTEM_TEMPERATURE = 290"

definition BOLTZMANN_CONSTANT :: real where
  "BOLTZMANN_CONSTANT = 138 / 10 ^ 25"

subsection \<open>Helper functions\<close>

definition range_to_time_delay :: "real \<Rightarrow> error + real" where
  "range_to_time_delay range_m = py_truediv (2 * range_m) SPEED_OF_LIGHT"

definition time_delay_to_range :: "real \<Rightarrow> error + real" where
  "time_delay_to_range delay_s = py_truediv (delay_s * SPEED_OF_LIGHT) 2"

text \<open>\<^verbatim>\<open>10 ** (db_value / 10)\<close>: a positive base, so the power is \<open>powr\<close>.\<close>

definition db_to_linear :: "real \<Rightarrow> error + real" where
  "db_to_linear db_value =
     bind_res (py_truediv db_value 10) (\<lambda>e. Inr (10 powr e))"

definition linear_to_db :: "real \<Rightarrow> error + float64" where
  "linear_to_db linear_value = Inr (f64_times 10 (np_log10 linear_value))"

definition calculate_thermal_noise_power :: "error + real" where
  "calculate_thermal_noise_power =
     bind_res (py_truediv 1 PULSE_WIDTH) (\<lambda>bandwidth.
     bind_res (db_to_linear NOISE_FIGURE_DB) (\<lambda>noise_figure_linear.
     Inr (BOLTZMANN_CONSTANT * SYSTEM_TEMPERATURE * bandwidth * noise_figure_linear)))"



subsection \<open>Closed forms used in the proofs\<close>



section \<open>Basic facts\<close>

lemma bind_res_Inr [simp]: "bind_res (Inr v) f = f v"
  by (simp add: bind_res_def)

lemma bind_res_Inl [simp]: "bind_res (Inl e) f = Inl e"
  by (simp add: bind_res_def)

lemma py_truediv_nonzero: "b \<noteq> 0 \<Longrightarrow> py_truediv a b = Inr (a / b)"
  by (simp add: py_truediv_def)

lemma py_truediv_zero: "py_truediv a 0 = Inl ZeroDivisionError"
  by (simp add: py_truediv_def)

lemma range_to_time_delay_eq: "range_to_time_delay r = Inr (2 * r / SPEED_OF_LIGHT)"
  by (simp add: range_to_time_delay_def py_truediv_def SPEED_OF_LIGHT_def)

lemma time_delay_to_range_eq: "time_delay_to_range d = Inr (d * SPEED_OF_LIGHT / 2)"
  by (simp add: time_delay_to_range_def py_truediv_def)

lemma db_to_linear_eq: "db_to_linear x = Inr (10 powr (x / 10))"
  by (simp add: db_to_linear_def py_truediv_def)

lemma linear_to_db_pos: "0 < y \<Longrightarrow> linear_to_db y = Inr (Finite (10 * log 10 y))"
  by (simp add: linear_to_db_def np_log10_def)







subsection \<open>The radar equation as a function of range and cross section\<close>








section \<open>The claims of the specification\<close>

subsection \<open>C1: the radar equation\<close>



subsection \<open>C2: thermal noise power\<close>

text \<open>
  Claim C2. \<^verbatim>\<open>calculate_thermal_noise_power\<close> returns \<open>k T B F\<close>: the Boltzmann constant
  times the system temperature times the bandwidth \<open>B\<close>, the reciprocal of the pulse
  width, times the noise-figure factor \<open>F\<close>, which is \<^verbatim>\<open>db_to_linear\<close> of the noise
  figure in decibels.
\<close>

theorem thermal_noise_is_kTBF:
  "\<exists>B F. py_truediv 1 PULSE_WIDTH = Inr B \<and> B = 1 / PULSE_WIDTH \<and>
         db_to_linear NOISE_FIGURE_DB = Inr F \<and>
         calculate_thermal_noise_power =
           Inr (BOLTZMANN_CONSTANT * SYSTEM_TEMPERATURE * B * F)"
  by (simp add: calculate_thermal_noise_power_def db_to_linear_eq py_truediv_def PULSE_WIDTH_def)

subsection \<open>C3: non-positive range or cross section\<close>



subsection \<open>C4: the logarithm of a non-positive number\<close>

text \<open>
  The specification has \<^verbatim>\<open>linear_to_db\<close> fail with \<open>InvalidInputError\<close> on zero and on
  negative numbers. It returns \<^verbatim>\<open>-inf\<close> and \<^verbatim>\<open>nan\<close> there.
\<close>

theorem linear_to_db_counterexample:
  "linear_to_db 0 = Inr NegInf \<and> linear_to_db (- 1) = Inr NaN"
  by (simp add: linear_to_db_def np_log10_def)

text \<open>
  Claim C4, as the code has it. \<^verbatim>\<open>linear_to_db\<close> never fails: for a positive number
  it returns \<open>10 log\<^sub>1\<^sub>0\<close> of it, for zero \<^verbatim>\<open>-inf\<close>, for a negative number \<^verbatim>\<open>nan\<close>.
\<close>

theorem linear_to_db_total:
  "linear_to_db linear_value =
     Inr (if 0 < linear_value then Finite (10 * log 10 linear_value)
          else if linear_value = 0 then NegInf else NaN)"
  by (simp add: linear_to_db_def np_log10_def)

subsection \<open>C5: range and time delay\<close>



subsection \<open>C6: range to delay and back\<close>

text \<open>
  Claim C6. For every range \<open>r \<ge> 0\<close>, converting \<open>r\<close> to a time delay and the delay
  back to a range gives \<open>r\<close> (exactly, over the reals).
\<close>

theorem range_delay_roundtrip:
  "0 \<le> r \<Longrightarrow> bind_res (range_to_time_delay r) time_delay_to_range = Inr r"
  by (simp add: range_to_time_delay_def time_delay_to_range_def py_truediv_def SPEED_OF_LIGHT_def)

theorem range_delay_roundtrip_witness:
  "(0::real) \<le> 5000 \<and> bind_res (range_to_time_delay 5000) time_delay_to_range = Inr 5000"
  using range_delay_roundtrip [of 5000] by simp

subsection \<open>C7: decibels to linear and back\<close>

text \<open>
  Claim C7. For every real \<open>x\<close>, \<^verbatim>\<open>linear_to_db(db_to_linear(x))\<close> is \<open>x\<close> (exactly, over
  the reals): \<^verbatim>\<open>db_to_linear\<close> is \<open>10\<close> to the power \<open>x / 10\<close> and \<^verbatim>\<open>linear_to_db\<close> is
  \<open>10 log\<^sub>1\<^sub>0\<close>, the power convention.
\<close>

theorem db_roundtrip:
  "db_to_linear x = Inr (10 powr (x / 10)) \<and>
   linear_to_db (10 powr (x / 10)) = Inr (Finite (10 * log 10 (10 powr (x / 10)))) \<and>
   bind_res (db_to_linear x) linear_to_db = Inr (Finite x)"
  by (simp add: db_to_linear_eq linear_to_db_pos)

subsection \<open>C8: the signal-to-noise ratio falls with range\<close>



subsection \<open>C9: doubling the range\<close>



subsection \<open>C10: positivity\<close>


end
